theory Spec2Isabelle
  imports Complex_Main "HOL-Library.Word"
begin

text \<open>
  A model of the retrieval-augmented chat backend: the document store of
  \<open>vector-store.ts\<close> over the table of \<open>db-init.ts\<close>, and the HTTP handlers of
  \<open>index.ts\<close>. Functions of the source are functions of a world (the documents table and
  the trace of calls made to outside services) returning their result, or the error
  they raise, together with the new world.
\<close>

section \<open>JavaScript strings\<close>

text \<open>
  A JavaScript string is a sequence of UTF-16 code units; \<open>length\<close> and \<open>slice\<close> count
  code units. \<open>s.slice(0, n)\<close> with \<open>n \<ge> 0\<close> is \<open>take n s\<close>; string concatenation is
  \<open>@\<close>; a string is truthy exactly when it is not empty.
\<close>

type_synonym code_unit = "16 word"
type_synonym jsstr = "code_unit list"

text \<open>String literals of the source, written in ASCII.\<close>

definition lit :: "string \<Rightarrow> jsstr" where
  "lit s = map (\<lambda>c. of_nat (of_char c)) s"

text \<open>
  \<open>String.prototype.trim\<close> removes WhiteSpace and LineTerminator code units from both
  ends (ECMAScript: TAB, VT, FF, SP, NBSP, ZWNBSP, the Unicode space separators, and
  LF, CR, LS, PS).
\<close>

definition isWhiteSpace :: "code_unit \<Rightarrow> bool" where
  "isWhiteSpace u \<longleftrightarrow>
     u = 0x0009 \<or> u = 0x000A \<or> u = 0x000B \<or> u = 0x000C \<or> u = 0x000D \<or>
     u = 0x0020 \<or> u = 0x00A0 \<or> u = 0x1680 \<or> (0x2000 \<le> u \<and> u \<le> 0x200A) \<or>
     u = 0x2028 \<or> u = 0x2029 \<or> u = 0x202F \<or> u = 0x205F \<or> u = 0x3000 \<or> u = 0xFEFF"

definition trim :: "jsstr \<Rightarrow> jsstr" where
  "trim s = rev (dropWhile isWhiteSpace (rev (dropWhile isWhiteSpace s)))"

text \<open>Number-to-string conversion of a non-negative integer (template literals).\<close>

fun decimal :: "nat \<Rightarrow> jsstr" where
  "decimal n =
     (if n < 10 then [of_nat (48 + n)]
      else decimal (n div 10) @ [of_nat (48 + n mod 10)])"

declare decimal.simps [simp del]

text \<open>\<open>Array.prototype.join\<close> on an array of strings.\<close>

fun join :: "jsstr \<Rightarrow> jsstr list \<Rightarrow> jsstr" where
  "join sep [] = []"
| "join sep [x] = x"
| "join sep (x # y # ys) = x @ sep @ join sep (y # ys)"


section \<open>The world outside the process\<close>

text \<open>
  The embedding provider, the PostgreSQL pool, the agent runtime (generation and
  conversational memory) and the text-splitter library are external. Their behaviour
  is a parameter of the model (\<open>env\<close>); every call made to a remote service is
  appended to a trace, and what a service answers may depend on when it is asked: the
  first argument of the oracles below is the number of calls made so far.
\<close>

type_synonym vector = "real list"

datatype sqlval = SText jsstr | SInt int | SVector vector

text \<open>
  The two SQL statements of \<open>vector-store.ts\<close>:
  \<^item> \<open>INSERT INTO documents (content, embedding, chunk_index) VALUES ($1, $2::vector, $3)\<close>
  \<^item> \<open>SELECT id, content, 1 - (embedding <=> $1::vector) AS similarity FROM documents
     WHERE document_id = $2 ORDER BY similarity DESC LIMIT $3\<close>
\<close>

datatype statement = InsertDocument | SelectSimilar

datatype pg_error =
    ConnectionError nat
  | UndefinedColumn string
  | BindMismatch nat nat
  | DatatypeMismatch
  | DimensionMismatch nat nat

datatype error =
    EmptyTextError
  | EmptyEmbeddingError
  | ProviderError nat
  | PgError pg_error
  | GenerationError nat
  | MemoryError nat

datatype role = User | Assistant | System | Function | Tool

record message =
  role :: role
  content :: jsstr

record gen_options =
  userId :: jsstr
  conversationId :: jsstr
  semanticEnabled :: bool
  semanticLimit :: nat
  semanticThreshold :: real

datatype call =
    EmbeddingsCreate jsstr
  | PoolQuery statement "sqlval list"
  | GenerateText "message list" gen_options
  | GetConversationsByUserId jsstr nat
  | GetMessages jsstr jsstr nat
  | AddMessage message jsstr jsstr

record stored_document =
  doc_id :: nat
  doc_content :: jsstr
  doc_embedding :: vector
  chunk_index :: int

record retrieval_row =
  row_id :: nat
  row_content :: jsstr
  similarity :: real

record world =
  documents :: "stored_document list"
  next_id :: nat
  trace :: "call list"

record env =
  splitText :: "jsstr \<Rightarrow> jsstr list"
  embeddings_create :: "nat \<Rightarrow> jsstr \<Rightarrow> nat + vector option"
  pg_fault :: "nat \<Rightarrow> nat option"
  cosine_distance :: "vector \<Rightarrow> vector \<Rightarrow> real"
  generateText :: "nat \<Rightarrow> message list \<Rightarrow> gen_options \<Rightarrow> nat + jsstr option"
  getConversationsByUserId :: "nat \<Rightarrow> jsstr \<Rightarrow> nat + jsstr list"
  getMessages :: "nat \<Rightarrow> jsstr \<Rightarrow> jsstr \<Rightarrow> nat + message list"
  addMessage :: "nat \<Rightarrow> message \<Rightarrow> jsstr \<Rightarrow> jsstr \<Rightarrow> nat option"
  date_now :: nat

definition record_call :: "call \<Rightarrow> world \<Rightarrow> world" where
  "record_call c w = w\<lparr>trace := trace w @ [c]\<rparr>"


section \<open>The documents table (db-init.ts) and the pool\<close>

text \<open>
  \<open>CREATE TABLE documents (id SERIAL PRIMARY KEY, content TEXT NOT NULL,
  embedding VECTOR(1536) NOT NULL, chunk_index INT)\<close>
\<close>

definition documents_columns :: "string list" where
  "documents_columns = [''id'', ''content'', ''embedding'', ''chunk_index'']"

definition embedding_dimensions :: nat where
  "embedding_dimensions = 1536"

definition column_value :: "string \<Rightarrow> stored_document \<Rightarrow> sqlval option" where
  "column_value c d =
     (if c = ''id'' then Some (SInt (int (doc_id d)))
      else if c = ''content'' then Some (SText (doc_content d))
      else if c = ''embedding'' then Some (SVector (doc_embedding d))
      else if c = ''chunk_index'' then Some (SInt (chunk_index d))
      else None)"

text \<open>Columns a statement names, and the highest placeholder \<open>$n\<close> it uses.\<close>

fun statement_columns :: "statement \<Rightarrow> string list" where
  "statement_columns InsertDocument = [''content'', ''embedding'', ''chunk_index'']"
| "statement_columns SelectSimilar = [''id'', ''content'', ''embedding'', ''document_id'']"

fun statement_placeholders :: "statement \<Rightarrow> nat" where
  "statement_placeholders InsertDocument = 3"
| "statement_placeholders SelectSimilar = 3"

text \<open>
  The server first parses the statement against the schema, then binds the values: a
  column the table does not have is an error, and so is a number of values different
  from the number of placeholders.
\<close>

definition parse_check :: "statement \<Rightarrow> pg_error option" where
  "parse_check st =
     (case filter (\<lambda>c. c \<notin> set documents_columns) (statement_columns st) of
        [] \<Rightarrow> None
      | c # _ \<Rightarrow> Some (UndefinedColumn c))"

definition bind_check :: "statement \<Rightarrow> sqlval list \<Rightarrow> pg_error option" where
  "bind_check st params =
     (if length params = statement_placeholders st then None
      else Some (BindMismatch (length params) (statement_placeholders st)))"

text \<open>What each statement does once parsed and bound.\<close>

definition run_insert :: "sqlval list \<Rightarrow> world \<Rightarrow> (pg_error + retrieval_row list) \<times> world" where
  "run_insert params w =
     (case params of
        [SText c, SVector v, SInt i] \<Rightarrow>
          if length v = embedding_dimensions
          then (Inr [],
                w\<lparr>documents := documents w @
                     [\<lparr>doc_id = next_id w, doc_content = c, doc_embedding = v, chunk_index = i\<rparr>],
                  next_id := Suc (next_id w)\<rparr>)
          else (Inl (DimensionMismatch embedding_dimensions (length v)), w)
      | _ \<Rightarrow> (Inl DatatypeMismatch, w))"

definition run_select :: "env \<Rightarrow> sqlval list \<Rightarrow> world \<Rightarrow> (pg_error + retrieval_row list) \<times> world" where
  "run_select E params w =
     (case params of
        [SVector q, p2, SInt n] \<Rightarrow>
          if length q = embedding_dimensions \<and> 0 \<le> n
          then (Inr (take (nat n)
                  (sort_key (\<lambda>r. - similarity r)
                    (map (\<lambda>d. \<lparr>row_id = doc_id d, row_content = doc_content d,
                               similarity = 1 - cosine_distance E (doc_embedding d) q\<rparr>)
                      (filter (\<lambda>d. column_value ''document_id'' d = Some p2) (documents w))))), w)
          else (Inl DatatypeMismatch, w)
      | _ \<Rightarrow> (Inl DatatypeMismatch, w))"

text \<open>\<open>pool.query(statement, params)\<close>: one round trip to the database.\<close>

definition pool_query ::
  "env \<Rightarrow> statement \<Rightarrow> sqlval list \<Rightarrow> world \<Rightarrow> (error + retrieval_row list) \<times> world" where
  "pool_query E st params w =
     (let w1 = record_call (PoolQuery st params) w in
      case pg_fault E (length (trace w)) of
        Some code \<Rightarrow> (Inl (PgError (ConnectionError code)), w1)
      | None \<Rightarrow>
         (case parse_check st of
            Some e \<Rightarrow> (Inl (PgError e), w1)
          | None \<Rightarrow>
             (case bind_check st params of
                Some e \<Rightarrow> (Inl (PgError e), w1)
              | None \<Rightarrow>
                 (case (case st of InsertDocument \<Rightarrow> run_insert params w1
                                 | SelectSimilar \<Rightarrow> run_select E params w1) of
                    (Inl e, w2) \<Rightarrow> (Inl (PgError e), w2)
                  | (Inr rows, w2) \<Rightarrow> (Inr rows, w2)))))"


section \<open>vector-store.ts\<close>

text \<open>
  \<open>splitIntoChunks\<close>: the splitter is the library's \<open>RecursiveCharacterTextSplitter\<close>
  (chunk size 150, overlap 20, separators \<open>["\n\n", "\n", " ", ""]\<close>), a parameter here.
\<close>

definition splitIntoChunks :: "env \<Rightarrow> jsstr \<Rightarrow> jsstr list" where
  "splitIntoChunks E text =
     (let trimmed = trim text in
      if trimmed = [] then [] else splitText E trimmed)"

text \<open>
  \<open>getEmbedding\<close>: the provider's answer is \<open>res.data[0]?.embedding\<close>, which may be
  missing (\<open>None\<close>) or empty.
\<close>

definition getEmbedding :: "env \<Rightarrow> jsstr \<Rightarrow> world \<Rightarrow> (error + vector) \<times> world" where
  "getEmbedding E text w =
     (let input = trim text in
      if input = [] then (Inl EmptyTextError, w)
      else
        (let w1 = record_call (EmbeddingsCreate input) w in
         case embeddings_create E (length (trace w)) input of
           Inl code \<Rightarrow> (Inl (ProviderError code), w1)
         | Inr None \<Rightarrow> (Inl EmptyEmbeddingError, w1)
         | Inr (Some emb) \<Rightarrow>
             if emb = [] then (Inl EmptyEmbeddingError, w1) else (Inr emb, w1)))"

text \<open>
  The body of the loop of \<open>ingestDocumentText\<close> for the chunk at index \<open>i\<close>: embed the
  chunk, then insert it with its index. The embedding literal \<open>[x1,x2,...]\<close> that the
  source builds and the server parses back is passed as the vector itself.
\<close>

definition ingest_chunk :: "env \<Rightarrow> jsstr \<Rightarrow> nat \<Rightarrow> world \<Rightarrow> (error + unit) \<times> world" where
  "ingest_chunk E chunk i w =
     (case getEmbedding E chunk w of
        (Inl e, w1) \<Rightarrow> (Inl e, w1)
      | (Inr embedding, w1) \<Rightarrow>
          (case pool_query E InsertDocument [SText chunk, SVector embedding, SInt (int i)] w1 of
             (Inl e, w2) \<Rightarrow> (Inl e, w2)
           | (Inr _, w2) \<Rightarrow> (Inr (), w2)))"

text \<open>The loop from index \<open>i\<close> on; an exception leaves it at once.\<close>

fun ingest_loop :: "env \<Rightarrow> jsstr list \<Rightarrow> nat \<Rightarrow> world \<Rightarrow> (error + unit) \<times> world" where
  "ingest_loop E [] i w = (Inr (), w)"
| "ingest_loop E (chunk # rest) i w =
     (case ingest_chunk E chunk i w of
        (Inl e, w1) \<Rightarrow> (Inl e, w1)
      | (Inr _, w1) \<Rightarrow> ingest_loop E rest (Suc i) w1)"

definition ingestDocumentText :: "env \<Rightarrow> jsstr \<Rightarrow> world \<Rightarrow> (error + unit) \<times> world" where
  "ingestDocumentText E text w =
     (let chunks = splitIntoChunks E text in
      if chunks = [] then (Inr (), w) else ingest_loop E chunks 0 w)"

text \<open>
  \<open>searchDocumentsByQuery\<close>: the statement has the placeholders \<open>$1\<close>, \<open>$2\<close>, \<open>$3\<close> and
  the call passes the two values \<open>[embeddingLiteral, limit]\<close>.
\<close>

definition searchDocumentsByQuery ::
  "env \<Rightarrow> jsstr \<Rightarrow> int \<Rightarrow> world \<Rightarrow> (error + retrieval_row list) \<times> world" where
  "searchDocumentsByQuery E query limit w =
     (let q = trim query in
      if q = [] then (Inr [], w)
      else
        (case getEmbedding E q w of
           (Inl e, w1) \<Rightarrow> (Inl e, w1)
         | (Inr embedding, w1) \<Rightarrow>
             pool_query E SelectSimilar [SVector embedding, SInt limit] w1))"


section \<open>index.ts: the HTTP handlers\<close>

definition USER_ID :: jsstr where
  "USER_ID = lit ''mohammed-alith''"

text \<open>
  A parsed JSON body \<open>{text, conversationId}\<close> (a field is \<open>None\<close> when missing or
  null, and a string otherwise, as the handlers take it), the multipart form of
  \<open>/api/mm-chat\<close> (the file is given by its text), and the JSON answers.
\<close>

record chat_request =
  body_text :: "jsstr option"
  body_conversationId :: "jsstr option"

record mm_request =
  form_file :: "jsstr option"
  form_question :: "jsstr option"
  form_conversationId :: "jsstr option"

datatype response_body =
    ErrorBody jsstr
  | ConversationsBody "jsstr list"
  | HistoryBody jsstr jsstr "message list"
  | SuccessBody
  | ChatBody "jsstr option" jsstr
  | AnswerBody jsstr jsstr

record response =
  status :: nat
  body :: response_body

datatype request =
    GetConversations
  | GetHistory "jsstr option"
  | PostIngest chat_request
  | PostChat chat_request
  | PostMmChat mm_request

text \<open>The calls into the agent runtime.\<close>

definition memory_getConversationsByUserId ::
  "env \<Rightarrow> jsstr \<Rightarrow> nat \<Rightarrow> world \<Rightarrow> (error + jsstr list) \<times> world" where
  "memory_getConversationsByUserId E uid limit w =
     (let w1 = record_call (GetConversationsByUserId uid limit) w in
      case getConversationsByUserId E (length (trace w)) uid of
        Inl code \<Rightarrow> (Inl (MemoryError code), w1)
      | Inr cs \<Rightarrow> (Inr cs, w1))"

definition memory_getMessages ::
  "env \<Rightarrow> jsstr \<Rightarrow> jsstr \<Rightarrow> nat \<Rightarrow> world \<Rightarrow> (error + message list) \<times> world" where
  "memory_getMessages E uid cid limit w =
     (let w1 = record_call (GetMessages uid cid limit) w in
      case getMessages E (length (trace w)) uid cid of
        Inl code \<Rightarrow> (Inl (MemoryError code), w1)
      | Inr ms \<Rightarrow> (Inr ms, w1))"

definition memory_addMessage ::
  "env \<Rightarrow> message \<Rightarrow> jsstr \<Rightarrow> jsstr \<Rightarrow> world \<Rightarrow> (error + unit) \<times> world" where
  "memory_addMessage E m uid cid w =
     (let w1 = record_call (AddMessage m uid cid) w in
      case addMessage E (length (trace w)) m uid cid of
        Some code \<Rightarrow> (Inl (MemoryError code), w1)
      | None \<Rightarrow> (Inr (), w1))"

definition agent_generateText ::
  "env \<Rightarrow> message list \<Rightarrow> gen_options \<Rightarrow> world \<Rightarrow> (error + jsstr option) \<times> world" where
  "agent_generateText E msgs opts w =
     (let w1 = record_call (GenerateText msgs opts) w in
      case generateText E (length (trace w)) msgs opts of
        Inl code \<Rightarrow> (Inl (GenerationError code), w1)
      | Inr r \<Rightarrow> (Inr r, w1))"

definition generation_options :: "jsstr \<Rightarrow> gen_options" where
  "generation_options cid =
     \<lparr>userId = USER_ID, conversationId = cid,
      semanticEnabled = True, semanticLimit = 10, semanticThreshold = 6 / 10\<rparr>"

definition fresh_conversationId :: "env \<Rightarrow> jsstr" where
  "fresh_conversationId E = lit ''conv_'' @ decimal (date_now E)"

text \<open>1) \<open>GET /api/conversations\<close>\<close>

definition conversations_handler :: "env \<Rightarrow> world \<Rightarrow> (error + response) \<times> world" where
  "conversations_handler E w =
     (case memory_getConversationsByUserId E USER_ID 50 w of
        (Inl e, w1) \<Rightarrow> (Inl e, w1)
      | (Inr conversations, w1) \<Rightarrow>
          (Inr \<lparr>status = 200, body = ConversationsBody conversations\<rparr>, w1))"

text \<open>2) \<open>GET /api/history?conversationId=\<close>\<close>

definition history_handler :: "env \<Rightarrow> jsstr option \<Rightarrow> world \<Rightarrow> (error + response) \<times> world" where
  "history_handler E query w =
     (case query of
        None \<Rightarrow> (Inr \<lparr>status = 400, body = ErrorBody (lit ''conversationId is required'')\<rparr>, w)
      | Some cid \<Rightarrow>
          if cid = []
          then (Inr \<lparr>status = 400, body = ErrorBody (lit ''conversationId is required'')\<rparr>, w)
          else
            (case memory_getMessages E USER_ID cid 50 w of
               (Inl e, w1) \<Rightarrow> (Inl e, w1)
             | (Inr messages, w1) \<Rightarrow>
                 (Inr \<lparr>status = 200, body = HistoryBody USER_ID cid messages\<rparr>, w1)))"

text \<open>The marker written to the conversation history after an ingestion.\<close>

definition ingest_marker :: "jsstr \<Rightarrow> message" where
  "ingest_marker text =
     \<lparr>role = System,
      content = lit ''[Document ingested into knowledge base as chunks]\<newline>'' @
                take 300 text @ (if length text > 300 then lit ''...'' else [])\<rparr>"

text \<open>3) \<open>POST /api/documents/ingest\<close>\<close>

definition request_text :: "chat_request \<Rightarrow> jsstr" where
  "request_text req = (case body_text req of None \<Rightarrow> [] | Some t \<Rightarrow> t)"

definition ingest_handler :: "env \<Rightarrow> chat_request \<Rightarrow> world \<Rightarrow> (error + response) \<times> world" where
  "ingest_handler E req w =
     (let text = request_text req;
          trimmed = trim text
      in if trimmed = []
         then (Inr \<lparr>status = 400, body = ErrorBody (lit ''text is required'')\<rparr>, w)
         else
           (case ingestDocumentText E trimmed w of
              (Inl e, w1) \<Rightarrow> (Inl e, w1)
            | (Inr _, w1) \<Rightarrow>
                (case body_conversationId req of
                   None \<Rightarrow> (Inr \<lparr>status = 200, body = SuccessBody\<rparr>, w1)
                 | Some cid \<Rightarrow>
                     if cid = [] then (Inr \<lparr>status = 200, body = SuccessBody\<rparr>, w1)
                     else
                       (case memory_addMessage E (ingest_marker trimmed) USER_ID cid w1 of
                          (Inl e, w2) \<Rightarrow> (Inl e, w2)
                        | (Inr _, w2) \<Rightarrow> (Inr \<lparr>status = 200, body = SuccessBody\<rparr>, w2)))))"

text \<open>
  The retrieval block shared by \<open>/api/chat\<close> and \<open>/api/mm-chat\<close>: each document becomes
  \<open>Snippet k:\n\<close> followed by the first 1000 code units of its content, the snippets are
  joined and the result is cut at 4000 code units; an exception of the search is
  logged and ignored.
\<close>

definition snippet :: "nat \<Rightarrow> retrieval_row \<Rightarrow> jsstr" where
  "snippet idx d = lit ''Snippet '' @ decimal (idx + 1) @ lit '':\<newline>'' @ take 1000 (row_content d)"

definition snippet_separator :: jsstr where
  "snippet_separator = lit ''\<newline>\<newline>---\<newline>\<newline>''"

definition rag_context :: "retrieval_row list \<Rightarrow> jsstr" where
  "rag_context docs =
     (if docs \<noteq> []
      then take 4000 (join snippet_separator (map (\<lambda>(idx, d). snippet idx d) (enumerate 0 docs)))
      else [])"

definition retrieve_context :: "env \<Rightarrow> jsstr \<Rightarrow> world \<Rightarrow> jsstr \<times> world" where
  "retrieve_context E question w =
     (case searchDocumentsByQuery E question 5 w of
        (Inl e, w1) \<Rightarrow> ([], w1)
      | (Inr docs, w1) \<Rightarrow> (rag_context docs, w1))"

definition context_header :: jsstr where
  "context_header =
     lit ''The following snippets are from the user's uploaded documents. Use them if relevant:\<newline>\<newline>''"

definition prompt_messages :: "jsstr \<Rightarrow> jsstr \<Rightarrow> message list" where
  "prompt_messages ragContext text =
     (if ragContext \<noteq> []
      then [\<lparr>role = System, content = context_header @ ragContext\<rparr>]
      else []) @
     [\<lparr>role = User, content = text\<rparr>]"

text \<open>4) \<open>POST /api/chat\<close>\<close>

definition chat_conversationId :: "env \<Rightarrow> chat_request \<Rightarrow> jsstr" where
  "chat_conversationId E req =
     (case body_conversationId req of None \<Rightarrow> fresh_conversationId E | Some c \<Rightarrow> c)"

definition chat_handler :: "env \<Rightarrow> chat_request \<Rightarrow> world \<Rightarrow> (error + response) \<times> world" where
  "chat_handler E req w =
     (let text = request_text req;
          cid = chat_conversationId E req
      in if trim text = []
         then (Inr \<lparr>status = 400, body = ErrorBody (lit ''text is required'')\<rparr>, w)
         else
           (case retrieve_context E text w of
              (ragContext, w1) \<Rightarrow>
                (case agent_generateText E (prompt_messages ragContext text)
                        (generation_options cid) w1 of
                   (Inl e, w2) \<Rightarrow> (Inl e, w2)
                 | (Inr result, w2) \<Rightarrow>
                     (Inr \<lparr>status = 200, body = ChatBody result cid\<rparr>, w2))))"

text \<open>5) \<open>POST /api/mm-chat\<close>\<close>

definition mm_question :: "mm_request \<Rightarrow> jsstr" where
  "mm_question req = (case form_question req of None \<Rightarrow> [] | Some q \<Rightarrow> q)"

definition mm_conversationId :: "env \<Rightarrow> mm_request \<Rightarrow> jsstr" where
  "mm_conversationId E req =
     (case form_conversationId req of
        None \<Rightarrow> fresh_conversationId E
      | Some c \<Rightarrow> if c = [] then fresh_conversationId E else c)"

definition mm_uploadedText :: "mm_request \<Rightarrow> jsstr" where
  "mm_uploadedText req = (case form_file req of None \<Rightarrow> [] | Some t \<Rightarrow> t)"

definition mm_ingest :: "env \<Rightarrow> mm_request \<Rightarrow> world \<Rightarrow> (error + unit) \<times> world" where
  "mm_ingest E req w =
     (let uploadedText = mm_uploadedText req in
      if trim uploadedText \<noteq> []
      then
        (case ingestDocumentText E uploadedText w of
           (Inl e, w1) \<Rightarrow> (Inl e, w1)
         | (Inr _, w1) \<Rightarrow>
             memory_addMessage E (ingest_marker uploadedText) USER_ID (mm_conversationId E req) w1)
      else (Inr (), w))"

definition effectiveQuestion :: "mm_request \<Rightarrow> jsstr" where
  "effectiveQuestion req =
     (if trim (mm_question req) \<noteq> [] then trim (mm_question req)
      else if mm_uploadedText req \<noteq> [] then lit ''Summarize the uploaded document.''
      else lit ''Explain the uploaded content.'')"

definition mm_chat_handler :: "env \<Rightarrow> mm_request \<Rightarrow> world \<Rightarrow> (error + response) \<times> world" where
  "mm_chat_handler E req w =
     (case mm_ingest E req w of
        (Inl e, w1) \<Rightarrow> (Inl e, w1)
      | (Inr _, w1) \<Rightarrow>
          (case retrieve_context E (effectiveQuestion req) w1 of
             (ragContext, w2) \<Rightarrow>
               (case agent_generateText E (prompt_messages ragContext (effectiveQuestion req))
                       (generation_options (mm_conversationId E req)) w2 of
                  (Inl e, w3) \<Rightarrow> (Inl e, w3)
                | (Inr result, w3) \<Rightarrow>
                    (Inr \<lparr>status = 200,
                          body = AnswerBody
                            (case result of None \<Rightarrow> lit ''(no answer)'' | Some t \<Rightarrow> t)
                            (mm_conversationId E req)\<rparr>, w3))))"

text \<open>The routes registered by \<open>configureApp\<close>.\<close>

fun handle :: "env \<Rightarrow> request \<Rightarrow> world \<Rightarrow> (error + response) \<times> world" where
  "handle E GetConversations w = conversations_handler E w"
| "handle E (GetHistory q) w = history_handler E q w"
| "handle E (PostIngest r) w = ingest_handler E r w"
| "handle E (PostChat r) w = chat_handler E r w"
| "handle E (PostMmChat r) w = mm_chat_handler E r w"


section \<open>Notions used to state the properties\<close>

text \<open>The two calls that a successfully ingested chunk leaves in the trace.\<close>

definition row_calls :: "stored_document \<Rightarrow> call list" where
  "row_calls d =
     [EmbeddingsCreate (trim (doc_content d)),
      PoolQuery InsertDocument
        [SText (doc_content d), SVector (doc_embedding d), SInt (chunk_index d)]]"

text \<open>The user on whose behalf a call to the agent runtime is made.\<close>

fun call_user :: "call \<Rightarrow> jsstr option" where
  "call_user (EmbeddingsCreate _) = None"
| "call_user (PoolQuery _ _) = None"
| "call_user (GenerateText _ opts) = Some (userId opts)"
| "call_user (GetConversationsByUserId uid _) = Some uid"
| "call_user (GetMessages uid _ _) = Some uid"
| "call_user (AddMessage _ uid _) = Some uid"

text \<open>
  A step from one world to a later one in which every call made to the agent runtime in
  between is made for \<open>USER_ID\<close>.
\<close>

definition scoped_step :: "world \<Rightarrow> world \<Rightarrow> bool" where
  "scoped_step w w' \<longleftrightarrow>
     (\<exists>cs. trace w' = trace w @ cs \<and> (\<forall>c \<in> set cs. \<forall>u. call_user c = Some u \<longrightarrow> u = USER_ID))"

text \<open>The database query of the search.\<close>

fun is_select :: "call \<Rightarrow> bool" where
  "is_select (PoolQuery SelectSimilar _) = True"
| "is_select _ = False"

text \<open>
  Sample surroundings: a provider answering every text with the same vector of 1536
  components, a database that is reachable, a splitter cutting pieces of two code
  units, and variants in which one service fails.
\<close>

definition example_vector :: vector where
  "example_vector = replicate 1536 1"

definition example_env :: env where
  "example_env =
     \<lparr>splitText = (\<lambda>s. [take 2 s, take 2 (drop 2 s), drop 4 s]),
      embeddings_create = (\<lambda>tick input. Inr (Some example_vector)),
      pg_fault = (\<lambda>tick. None),
      cosine_distance = (\<lambda>a b. 0),
      generateText = (\<lambda>tick msgs opts. Inr (Some (lit ''ok''))),
      getConversationsByUserId = (\<lambda>tick uid. Inr []),
      getMessages = (\<lambda>tick uid cid. Inr []),
      addMessage = (\<lambda>tick m uid cid. None),
      date_now = 1700000000000\<rparr>"

definition flaky_provider_env :: env where
  "flaky_provider_env =
     example_env\<lparr>embeddings_create :=
       (\<lambda>tick input. if tick = 4 then Inl 503 else Inr (Some example_vector))\<rparr>"

definition down_provider_env :: env where
  "down_provider_env = example_env\<lparr>embeddings_create := (\<lambda>tick input. Inl 503)\<rparr>"

definition empty_world :: world where
  "empty_world = \<lparr>documents = [], next_id = 1, trace = []\<rparr>"

definition stocked_world :: world where
  "stocked_world =
     \<lparr>documents = [\<lparr>doc_id = 1, doc_content = lit ''The sky is blue.'',
                     doc_embedding = example_vector, chunk_index = 0\<rparr>],
      next_id = 2, trace = []\<rparr>"

definition two_results :: "retrieval_row list" where
  "two_results =
     [\<lparr>row_id = 1, row_content = lit ''The sky is blue.'', similarity = 9 / 10\<rparr>,
      \<lparr>row_id = 2, row_content = lit ''Paris is in France.'', similarity = 1 / 10\<rparr>]"

text \<open>Sample requests.\<close>

definition hi_request :: chat_request where
  "hi_request = \<lparr>body_text = Some (lit ''hi''), body_conversationId = Some (lit ''c1'')\<rparr>"

definition blank_request :: chat_request where
  "blank_request = \<lparr>body_text = Some (lit '' \<newline> ''), body_conversationId = Some (lit ''c1'')\<rparr>"

definition bare_mm_request :: mm_request where
  "bare_mm_request = \<lparr>form_file = None, form_question = None, form_conversationId = Some (lit ''c1'')\<rparr>"

definition file_mm_request :: mm_request where
  "file_mm_request =
     \<lparr>form_file = Some (lit ''abcdef''), form_question = Some (lit '' \<newline> ''),
      form_conversationId = Some (lit ''c1'')\<rparr>"

definition history_request :: request where
  "history_request = GetHistory (Some (lit ''c1''))"


section \<open>Basic facts\<close>

lemma lit_Nil_iff [simp]: "lit s = [] \<longleftrightarrow> s = []"
  by (simp add: lit_def)

lemma length_lit [simp]: "length (lit s) = length s"
  by (simp add: lit_def)

lemma length_example_vector: "length example_vector = 1536"
  by (simp add: example_vector_def)

lemma example_vector_not_Nil: "example_vector \<noteq> []"
  using length_example_vector by fastforce

lemma getEmbedding_blank: "trim text = [] \<Longrightarrow> getEmbedding E text w = (Inl EmptyTextError, w)"
  by (simp add: getEmbedding_def)

lemma getEmbedding_Inr:
  assumes "getEmbedding E text w = (Inr emb, w1)"
  shows "w1 = record_call (EmbeddingsCreate (trim text)) w \<and> trim text \<noteq> [] \<and> emb \<noteq> []"
  using assms
  by (auto simp: getEmbedding_def Let_def split: if_splits sum.splits option.splits)

lemma getEmbedding_documents:
  "getEmbedding E text w = (r, w1) \<Longrightarrow> documents w1 = documents w \<and> next_id w1 = next_id w"
  by (auto simp: getEmbedding_def Let_def record_call_def split: if_splits sum.splits option.splits)

lemma parse_check_insert: "parse_check InsertDocument = None"
  by (simp add: parse_check_def documents_columns_def)

lemma insert_Inr:
  assumes "pool_query E InsertDocument [SText c, SVector v, SInt i] w = (Inr rows, w')"
  shows "w' = (record_call (PoolQuery InsertDocument [SText c, SVector v, SInt i]) w)
              \<lparr>documents := documents w @
                 [\<lparr>doc_id = next_id w, doc_content = c, doc_embedding = v, chunk_index = i\<rparr>],
               next_id := Suc (next_id w)\<rparr>"
  using assms
  by (auto simp: pool_query_def Let_def parse_check_insert bind_check_def run_insert_def
        record_call_def split: option.splits if_splits)

lemma insert_Inl:
  assumes "pool_query E InsertDocument [SText c, SVector v, SInt i] w = (Inl e, w')"
  shows "w' = record_call (PoolQuery InsertDocument [SText c, SVector v, SInt i]) w"
  using assms
  by (auto simp: pool_query_def Let_def parse_check_insert bind_check_def run_insert_def
        record_call_def split: option.splits if_splits)

lemma ingest_chunk_Inl:
  "ingest_chunk E c i w = (Inl e, w') \<Longrightarrow> documents w' = documents w"
  by (auto simp: ingest_chunk_def record_call_def split: prod.splits sum.splits
      dest!: getEmbedding_documents insert_Inl)

lemma ingest_chunk_Inr:
  assumes "ingest_chunk E c i w = (Inr u, w')"
  shows "\<exists>d. documents w' = documents w @ [d] \<and> doc_content d = c \<and> chunk_index d = int i \<and>
             trace w' = trace w @ row_calls d"
  using assms
  by (auto simp: ingest_chunk_def record_call_def row_calls_def split: prod.splits sum.splits
      dest!: getEmbedding_Inr insert_Inr)

text \<open>
  The loop started at index \<open>i\<close> persists a prefix of its chunks, in order and numbered
  from \<open>i\<close>; it ends normally exactly when the prefix is everything, and otherwise with
  the error of the step at which it stopped.
\<close>

lemma ingest_loop_run:
  "ingest_loop E cs i w = (res, w') \<Longrightarrow>
   \<exists>k new. k \<le> length cs \<and> documents w' = documents w @ new \<and>
     map doc_content new = take k cs \<and> map chunk_index new = map int [i..<i + k] \<and>
     (res = Inr () \<longrightarrow> k = length cs \<and> trace w' = trace w @ concat (map row_calls new)) \<and>
     (\<forall>e. res = Inl e \<longrightarrow> k < length cs \<and>
        (\<exists>wk. documents wk = documents w @ new \<and>
              trace wk = trace w @ concat (map row_calls new) \<and>
              ingest_chunk E (cs ! k) (i + k) wk = (Inl e, w')))"
proof (induction cs arbitrary: i w)
  case Nil
  then show ?case by auto
next
  case (Cons c cs)
  obtain r1 w1 where step: "ingest_chunk E c i w = (r1, w1)" by (cases "ingest_chunk E c i w")
  show ?case
  proof (cases r1)
    case (Inl e)
    with Cons.prems step have res: "res = Inl e" "w' = w1" by auto
    have "documents w' = documents w" using ingest_chunk_Inl step Inl res by blast
    with res step Inl show ?thesis
      by (intro exI[of _ 0] exI[of _ "[]"]) auto
  next
    case (Inr u)
    with Cons.prems step have rest: "ingest_loop E cs (Suc i) w1 = (res, w')" by auto
    from ingest_chunk_Inr step Inr obtain d where
      d: "documents w1 = documents w @ [d]" "doc_content d = c" "chunk_index d = int i"
         "trace w1 = trace w @ row_calls d" by blast
    from Cons.IH[OF rest] obtain k new where
      k: "k \<le> length cs" "documents w' = documents w1 @ new"
         "map doc_content new = take k cs" "map chunk_index new = map int [Suc i..<Suc i + k]"
         "res = Inr () \<longrightarrow> k = length cs \<and> trace w' = trace w1 @ concat (map row_calls new)"
         "\<forall>e. res = Inl e \<longrightarrow> k < length cs \<and>
            (\<exists>wk. documents wk = documents w1 @ new \<and>
              trace wk = trace w1 @ concat (map row_calls new) \<and>
              ingest_chunk E (cs ! k) (Suc i + k) wk = (Inl e, w'))"
      by blast
    have idx: "map int [i..<i + Suc k] = int i # map int [Suc i..<Suc i + k]"
      by (simp add: upt_conv_Cons)
    show ?thesis
      apply (intro exI[of _ "Suc k"] exI[of _ "d # new"])
      using k d idx by auto
  qed
qed

lemma ingestDocumentText_run:
  assumes "ingestDocumentText E text w = (res, w')"
  shows "\<exists>k new. k \<le> length (splitIntoChunks E text) \<and> documents w' = documents w @ new \<and>
     map doc_content new = take k (splitIntoChunks E text) \<and>
     map chunk_index new = map int [0..<k] \<and>
     (res = Inr () \<longrightarrow> k = length (splitIntoChunks E text) \<and>
        trace w' = trace w @ concat (map row_calls new)) \<and>
     (\<forall>e. res = Inl e \<longrightarrow> k < length (splitIntoChunks E text) \<and>
        (\<exists>wk. documents wk = documents w @ new \<and>
              trace wk = trace w @ concat (map row_calls new) \<and>
              ingest_chunk E (splitIntoChunks E text ! k) k wk = (Inl e, w')))"
proof (cases "splitIntoChunks E text = []")
  case True
  with assms have "res = Inr ()" "w' = w" by (auto simp: ingestDocumentText_def)
  with True show ?thesis by (intro exI[of _ 0] exI[of _ "[]"]) auto
next
  case False
  with assms have "ingest_loop E (splitIntoChunks E text) 0 w = (res, w')"
    by (auto simp: ingestDocumentText_def Let_def)
  from ingest_loop_run[OF this] show ?thesis by simp
qed


subsection \<open>The sample surroundings, evaluated\<close>

lemma example_simps:
  "splitText example_env s = [take 2 s, take 2 (drop 2 s), drop 4 s]"
  "embeddings_create example_env t s = Inr (Some example_vector)"
  "pg_fault example_env t = None"
  "generateText example_env t msgs opts = Inr (Some (lit ''ok''))"
  "getConversationsByUserId example_env t u = Inr []"
  "getMessages example_env t u c = Inr []"
  "addMessage example_env t m u c = None"
  "date_now example_env = 1700000000000"
  by (simp_all add: example_env_def)

lemma flaky_simps:
  "splitText flaky_provider_env s = [take 2 s, take 2 (drop 2 s), drop 4 s]"
  "embeddings_create flaky_provider_env t s =
     (if t = 4 then Inl 503 else Inr (Some example_vector))"
  "pg_fault flaky_provider_env t = None"
  by (simp_all add: flaky_provider_env_def example_env_def)

lemma down_simps:
  "embeddings_create down_provider_env t s = Inl 503"
  "pg_fault down_provider_env t = None"
  "generateText down_provider_env t msgs opts = Inr (Some (lit ''ok''))"
  "date_now down_provider_env = 1700000000000"
  by (simp_all add: down_provider_env_def example_env_def)

lemma empty_world_simps:
  "documents empty_world = []" "next_id empty_world = 1" "trace empty_world = []"
  by (simp_all add: empty_world_def)

lemma trim_samples:
  "trim (lit ''ab'') = lit ''ab''" "trim (lit ''cd'') = lit ''cd''"
  "trim (lit ''ef'') = lit ''ef''" "trim (lit ''abcdef'') = lit ''abcdef''"
  "trim (lit ''sky'') = lit ''sky''" "trim (lit ''hi'') = lit ''hi''"
  "trim (lit '' \<newline> '') = []" "trim [] = []"
  by (simp_all add: lit_def trim_def isWhiteSpace_def)

lemma example_chunks:
  "splitIntoChunks example_env (lit ''abcdef'') = [lit ''ab'', lit ''cd'', lit ''ef'']"
  by (simp add: splitIntoChunks_def trim_samples example_simps) (simp add: lit_def)

lemma flaky_chunks:
  "splitIntoChunks flaky_provider_env (lit ''abcdef'') = [lit ''ab'', lit ''cd'', lit ''ef'']"
  by (simp add: splitIntoChunks_def trim_samples flaky_simps) (simp add: lit_def)

lemma example_run:
  "ingestDocumentText example_env (lit ''abcdef'') empty_world =
   (Inr (),
    \<lparr>documents =
       [\<lparr>doc_id = 1, doc_content = lit ''ab'', doc_embedding = example_vector, chunk_index = 0\<rparr>,
        \<lparr>doc_id = 2, doc_content = lit ''cd'', doc_embedding = example_vector, chunk_index = 1\<rparr>,
        \<lparr>doc_id = 3, doc_content = lit ''ef'', doc_embedding = example_vector, chunk_index = 2\<rparr>],
     next_id = 4,
     trace =
       [EmbeddingsCreate (lit ''ab''),
        PoolQuery InsertDocument [SText (lit ''ab''), SVector example_vector, SInt 0],
        EmbeddingsCreate (lit ''cd''),
        PoolQuery InsertDocument [SText (lit ''cd''), SVector example_vector, SInt 1],
        EmbeddingsCreate (lit ''ef''),
        PoolQuery InsertDocument [SText (lit ''ef''), SVector example_vector, SInt 2]]\<rparr>)"
  unfolding ingestDocumentText_def example_chunks Let_def
  by (simp add: ingest_chunk_def getEmbedding_def trim_samples pool_query_def parse_check_insert
      bind_check_def run_insert_def record_call_def example_simps Let_def
      empty_world_def length_example_vector example_vector_not_Nil embedding_dimensions_def)

lemma flaky_run:
  "ingestDocumentText flaky_provider_env (lit ''abcdef'') empty_world =
   (Inl (ProviderError 503),
    \<lparr>documents =
       [\<lparr>doc_id = 1, doc_content = lit ''ab'', doc_embedding = example_vector, chunk_index = 0\<rparr>,
        \<lparr>doc_id = 2, doc_content = lit ''cd'', doc_embedding = example_vector, chunk_index = 1\<rparr>],
     next_id = 3,
     trace =
       [EmbeddingsCreate (lit ''ab''),
        PoolQuery InsertDocument [SText (lit ''ab''), SVector example_vector, SInt 0],
        EmbeddingsCreate (lit ''cd''),
        PoolQuery InsertDocument [SText (lit ''cd''), SVector example_vector, SInt 1],
        EmbeddingsCreate (lit ''ef'')]\<rparr>)"
  unfolding ingestDocumentText_def flaky_chunks Let_def
  by (simp add: ingest_chunk_def getEmbedding_def trim_samples pool_query_def parse_check_insert
      bind_check_def run_insert_def record_call_def flaky_simps Let_def
      empty_world_def length_example_vector example_vector_not_Nil embedding_dimensions_def)

lemma parse_check_select: "parse_check SelectSimilar = Some (UndefinedColumn ''document_id'')"
  by (simp add: parse_check_def documents_columns_def)

text \<open>
  Whatever the provider and the database do, a search for a query that is not blank
  ends with an error: the statement names a column the table does not have.
\<close>

lemma search_never_answers:
  assumes "trim q \<noteq> []"
  shows "\<exists>e w'. searchDocumentsByQuery E q n w = (Inl e, w')"
  using assms
  by (auto simp: searchDocumentsByQuery_def Let_def pool_query_def parse_check_select
      split: prod.splits sum.splits option.splits)


section \<open>The vector store\<close>

text \<open>
  C1. The claim: for every query embedding and positive \<open>N\<close>, the search returns at most
  \<open>N\<close> records sorted by non-increasing similarity. The code does not get that far:
  for the query \<open>sky\<close> with limit 5, over a table holding one document, and with the
  provider and the database both answering, \<open>searchDocumentsByQuery\<close> ends with a
  database error and returns no rows. The statement filters on a column
  \<open>document_id\<close> that the table of \<open>db-init.ts\<close> does not have, and it has three
  placeholders while the call binds two values.
\<close>

theorem search_raises_for_sky:
  "searchDocumentsByQuery example_env (lit ''sky'') 5 stocked_world =
     (Inl (PgError (UndefinedColumn ''document_id'')),
      stocked_world\<lparr>trace := [EmbeddingsCreate (lit ''sky''),
                              PoolQuery SelectSimilar [SVector example_vector, SInt 5]]\<rparr>) \<and>
   bind_check SelectSimilar [SVector example_vector, SInt 5] = Some (BindMismatch 2 3)"
  by (simp add: searchDocumentsByQuery_def Let_def trim_samples getEmbedding_def example_simps
      example_vector_not_Nil pool_query_def parse_check_select bind_check_def record_call_def
      stocked_world_def)


section \<open>Blank input\<close>

text \<open>
  C4. For every text that is empty or only whitespace, chunking gives no chunk, the
  search and the retrieval block give the empty result, ingestion ends normally, and
  \<open>getEmbedding\<close> fails with the empty-input error; in each case the world is left as
  it was: nothing is inserted and no call to the provider or the database is made.
\<close>

theorem blank_text_is_noop:
  assumes "trim text = []"
  shows "splitIntoChunks E text = [] \<and>
         searchDocumentsByQuery E text limit w = (Inr [], w) \<and>
         retrieve_context E text w = ([], w) \<and>
         ingestDocumentText E text w = (Inr (), w) \<and>
         getEmbedding E text w = (Inl EmptyTextError, w)"
  using assms
  by (simp add: splitIntoChunks_def searchDocumentsByQuery_def retrieve_context_def
      rag_context_def ingestDocumentText_def getEmbedding_def)

theorem blank_text_is_noop_witness:
  "trim (lit '' \<newline> '') = [] \<and>
   splitIntoChunks example_env (lit '' \<newline> '') = [] \<and>
   searchDocumentsByQuery example_env (lit '' \<newline> '') 5 stocked_world = (Inr [], stocked_world) \<and>
   retrieve_context example_env (lit '' \<newline> '') stocked_world = ([], stocked_world) \<and>
   ingestDocumentText example_env (lit '' \<newline> '') stocked_world = (Inr (), stocked_world) \<and>
   getEmbedding example_env (lit '' \<newline> '') stocked_world = (Inl EmptyTextError, stocked_world)"
proof -
  have blank: "trim (lit '' \<newline> '') = []"
    by (simp add: trim_samples)
  from blank_text_is_noop[OF blank, of example_env 5 stocked_world] blank
  show ?thesis by simp
qed


section \<open>Ingestion\<close>

text \<open>
  C3. Ingestion handles the chunks in order, chunk \<open>i\<close> stored with index \<open>i\<close>: the rows
  it adds to the table are those of the first \<open>k\<close> chunks, in order. When it ends
  normally \<open>k\<close> is the number of chunks and the calls made are, chunk after chunk, the
  embedding request and then the insertion. When it ends with an error, the rows of
  the chunks before \<open>k\<close> are still in the table, and the error is the one that the
  step for chunk \<open>k\<close> (embedding, then insertion) raised.
\<close>

theorem ingest_in_order_keeps_prefix:
  assumes "ingestDocumentText E text w = (res, w')"
  shows "\<exists>k new. k \<le> length (splitIntoChunks E text) \<and>
     documents w' = documents w @ new \<and>
     map doc_content new = take k (splitIntoChunks E text) \<and>
     map chunk_index new = map int [0..<k] \<and>
     (res = Inr () \<longrightarrow> k = length (splitIntoChunks E text) \<and>
        trace w' = trace w @ concat (map row_calls new)) \<and>
     (\<forall>e. res = Inl e \<longrightarrow> k < length (splitIntoChunks E text) \<and>
        (\<exists>wk. documents wk = documents w @ new \<and>
              trace wk = trace w @ concat (map row_calls new) \<and>
              ingest_chunk E (splitIntoChunks E text ! k) k wk = (Inl e, w')))"
  using ingestDocumentText_run[OF assms] .

theorem ingest_in_order_keeps_prefix_witness:
  "fst (ingestDocumentText flaky_provider_env (lit ''abcdef'') empty_world) = Inl (ProviderError 503) \<and>
   map doc_content (documents (snd (ingestDocumentText flaky_provider_env (lit ''abcdef'') empty_world)))
     = [lit ''ab'', lit ''cd''] \<and>
   (\<exists>k new. k \<le> length (splitIntoChunks flaky_provider_env (lit ''abcdef'')) \<and>
     documents (snd (ingestDocumentText flaky_provider_env (lit ''abcdef'') empty_world)) =
       documents empty_world @ new \<and>
     map doc_content new = take k (splitIntoChunks flaky_provider_env (lit ''abcdef'')) \<and>
     map chunk_index new = map int [0..<k] \<and>
     k < length (splitIntoChunks flaky_provider_env (lit ''abcdef'')) \<and>
     (\<exists>wk. documents wk = documents empty_world @ new \<and>
           trace wk = trace empty_world @ concat (map row_calls new) \<and>
           ingest_chunk flaky_provider_env (splitIntoChunks flaky_provider_env (lit ''abcdef'') ! k) k wk =
             (Inl (ProviderError 503),
              snd (ingestDocumentText flaky_provider_env (lit ''abcdef'') empty_world))))"
  using ingest_in_order_keeps_prefix[of flaky_provider_env "lit ''abcdef''" empty_world
      "Inl (ProviderError 503)"
      "snd (ingestDocumentText flaky_provider_env (lit ''abcdef'') empty_world)"]
  by (simp add: flaky_run)

text \<open>
  C8. The chunk indexes of the rows that one ingestion adds are \<open>0, 1, ..., k - 1\<close> in
  insertion order, where \<open>k\<close> is the number of chunks when the ingestion ends normally:
  consecutive from zero, hence strictly increasing, distinct and not negative. The
  rows that were in the table before are untouched.
\<close>

theorem chunk_indices_count_up_from_zero:
  assumes "ingestDocumentText E text w = (res, w')"
  shows "\<exists>k \<le> length (splitIntoChunks E text).
     take (length (documents w)) (documents w') = documents w \<and>
     map chunk_index (drop (length (documents w)) (documents w')) = map int [0..<k] \<and>
     (res = Inr () \<longrightarrow> k = length (splitIntoChunks E text)) \<and>
     sorted_wrt (<) (map chunk_index (drop (length (documents w)) (documents w'))) \<and>
     distinct (map chunk_index (drop (length (documents w)) (documents w'))) \<and>
     (\<forall>i \<in> set (map chunk_index (drop (length (documents w)) (documents w'))). 0 \<le> i)"
proof -
  from ingestDocumentText_run[OF assms] obtain k new where
    k: "k \<le> length (splitIntoChunks E text)" "documents w' = documents w @ new"
       "map chunk_index new = map int [0..<k]"
       "res = Inr () \<longrightarrow> k = length (splitIntoChunks E text)"
    by blast
  have "sorted_wrt (<) (map int [0..<k])"
    by (simp add: sorted_wrt_map)
  moreover have "distinct (map int [0..<k])"
    by (simp add: distinct_map)
  ultimately show ?thesis using k
    by (intro exI[of _ k]) auto
qed

theorem chunk_indices_count_up_from_zero_witness:
  "fst (ingestDocumentText example_env (lit ''abcdef'') empty_world) = Inr () \<and>
   map chunk_index (documents (snd (ingestDocumentText example_env (lit ''abcdef'') empty_world)))
     = [0, 1, 2] \<and>
   (\<exists>k \<le> length (splitIntoChunks example_env (lit ''abcdef'')).
      map chunk_index (drop (length (documents empty_world))
        (documents (snd (ingestDocumentText example_env (lit ''abcdef'') empty_world))))
        = map int [0..<k] \<and> k = 3)"
  using chunk_indices_count_up_from_zero[of example_env "lit ''abcdef''" empty_world "Inr ()"
      "snd (ingestDocumentText example_env (lit ''abcdef'') empty_world)"]
  by (simp add: example_run example_chunks empty_world_simps upt_rec)


section \<open>Context assembly\<close>

lemma snippets_by_index:
  "map (\<lambda>(idx, d). snippet idx d) (enumerate 0 docs) =
   map (\<lambda>i. snippet i (docs ! i)) [0..<length docs]"
  by (rule nth_equalityI) (simp_all add: nth_enumerate_eq)

lemma join_not_Nil: "xs \<noteq> [] \<Longrightarrow> hd xs \<noteq> [] \<Longrightarrow> join sep xs \<noteq> []"
  by (cases xs; cases "tl xs") auto

lemma snippet_not_Nil: "snippet i d \<noteq> []"
  by (simp add: snippet_def)

lemma rag_context_Nil_iff: "rag_context docs = [] \<longleftrightarrow> docs = []"
proof (cases docs)
  case Nil
  then show ?thesis by (simp add: rag_context_def)
next
  case (Cons d ds)
  have "join snippet_separator (map (\<lambda>(idx, d). snippet idx d) (enumerate 0 docs)) \<noteq> []"
    by (rule join_not_Nil) (simp_all add: Cons snippet_not_Nil)
  then show ?thesis by (simp add: rag_context_def Cons)
qed

text \<open>
  C6. For every sequence of results, the context is the join, with the separator
  \<open>\n\n---\n\n\<close>, of the snippets \<open>Snippet k:\n\<close> followed by the first 1000 code units of
  the \<open>k\<close>-th content (numbered from 1), cut at 4000 code units; its length is at most
  4000; it is empty exactly when there is no result, and then the prompt is the user
  message alone, while otherwise one system message carrying the context precedes it.
\<close>

theorem rag_context_format_and_bound:
  "rag_context docs =
     take 4000 (join (lit ''\<newline>\<newline>---\<newline>\<newline>'')
       (map (\<lambda>i. lit ''Snippet '' @ decimal (i + 1) @ lit '':\<newline>'' @
                   take 1000 (row_content (docs ! i)))
          [0..<length docs])) \<and>
   length (rag_context docs) \<le> 4000 \<and>
   (rag_context docs = []) = (docs = []) \<and>
   rag_context [] = [] \<and>
   prompt_messages (rag_context []) text = [\<lparr>role = User, content = text\<rparr>] \<and>
   (docs \<noteq> [] \<longrightarrow>
      prompt_messages (rag_context docs) text =
        [\<lparr>role = System, content = context_header @ rag_context docs\<rparr>,
         \<lparr>role = User, content = text\<rparr>])"
proof -
  have "rag_context docs =
     take 4000 (join snippet_separator (map (\<lambda>i. snippet i (docs ! i)) [0..<length docs]))"
    by (cases "docs = []") (simp_all add: rag_context_def snippets_by_index)
  then have fmt: "rag_context docs =
     take 4000 (join (lit ''\<newline>\<newline>---\<newline>\<newline>'')
       (map (\<lambda>i. lit ''Snippet '' @ decimal (i + 1) @ lit '':\<newline>'' @
                   take 1000 (row_content (docs ! i)))
          [0..<length docs]))"
    by (simp add: snippet_def snippet_separator_def)
  have len: "length (rag_context docs) \<le> 4000"
    by (simp add: rag_context_def)
  have empty: "rag_context [] = []" by (simp add: rag_context_def)
  show ?thesis
    using fmt len empty rag_context_Nil_iff[of docs]
    by (simp add: prompt_messages_def)
qed

theorem rag_context_format_and_bound_witness:
  "rag_context two_results =
     lit ''Snippet 1:\<newline>The sky is blue.\<newline>\<newline>---\<newline>\<newline>Snippet 2:\<newline>Paris is in France.'' \<and>
   prompt_messages (rag_context two_results) (lit ''hi'') =
     [\<lparr>role = System, content = context_header @ rag_context two_results\<rparr>,
      \<lparr>role = User, content = lit ''hi''\<rparr>]"
proof -
  have d: "decimal (Suc 0) = lit ''1''" "decimal (Suc (Suc 0)) = lit ''2''"
    by (simp_all add: decimal.simps lit_def)
  have ne: "two_results \<noteq> []" by (simp add: two_results_def)
  have "length two_results = 2" by (simp add: two_results_def)
  then have u: "[0..<length two_results] = [0, 1]" by (simp add: upt_rec)
  have c: "row_content (two_results ! 0) = lit ''The sky is blue.''"
          "row_content (two_results ! Suc 0) = lit ''Paris is in France.''"
    by (simp_all add: two_results_def)
  from rag_context_format_and_bound[of two_results "lit ''hi''"] ne
  show ?thesis
    by (simp add: u c d) (simp add: lit_def prompt_messages_def)
qed


section \<open>The chat handler\<close>

lemma dropWhile_rev_prefix:
  assumes "xs = [] \<or> \<not> P (hd xs)"
  shows "dropWhile P (rev (dropWhile P (rev xs))) = rev (dropWhile P (rev xs))"
proof (cases "rev (dropWhile P (rev xs))")
  case Nil
  then show ?thesis by (simp only: dropWhile.simps)
next
  case (Cons y ys)
  have "rev xs = takeWhile P (rev xs) @ dropWhile P (rev xs)" by simp
  then have "xs = rev (dropWhile P (rev xs)) @ rev (takeWhile P (rev xs))"
    by (metis rev_append rev_rev_ident)
  with Cons have "xs = (y # ys) @ rev (takeWhile P (rev xs))" by simp
  then have "hd xs = y" "xs \<noteq> []" by (metis append_Cons list.sel(1), auto)
  with assms have "\<not> P y" by auto
  with Cons show ?thesis by simp
qed

lemma trim_idem [simp]: "trim (trim s) = trim s"
proof -
  have "dropWhile isWhiteSpace s = [] \<or> \<not> isWhiteSpace (hd (dropWhile isWhiteSpace s))"
    using hd_dropWhile by blast
  then have "dropWhile isWhiteSpace (rev (dropWhile isWhiteSpace (rev (dropWhile isWhiteSpace s))))
      = rev (dropWhile isWhiteSpace (rev (dropWhile isWhiteSpace s)))"
    by (rule dropWhile_rev_prefix)
  then show ?thesis
    by (simp add: trim_def)
qed

lemma search_trace:
  assumes "trim q \<noteq> []" and "searchDocumentsByQuery E q n w = (r, w1)"
  shows "\<exists>mid. trace w1 = trace w @ EmbeddingsCreate (trim q) # mid \<and> length mid \<le> 1 \<and>
           list_all is_select mid \<and> documents w1 = documents w"
  using assms
  by (auto simp: searchDocumentsByQuery_def Let_def getEmbedding_def pool_query_def
      parse_check_select record_call_def
      split: prod.splits sum.splits option.splits if_splits)

lemma retrieve_trace:
  assumes "trim q \<noteq> []" and "retrieve_context E q w = (ctx, w1)"
  shows "\<exists>mid. trace w1 = trace w @ EmbeddingsCreate (trim q) # mid \<and> length mid \<le> 1 \<and>
           list_all is_select mid \<and> documents w1 = documents w"
proof -
  obtain r w2 where s: "searchDocumentsByQuery E q 5 w = (r, w2)"
    by (cases "searchDocumentsByQuery E q 5 w")
  with assms(2) have "w1 = w2" by (auto simp: retrieve_context_def split: sum.splits)
  with search_trace[OF assms(1) s] show ?thesis by simp
qed

text \<open>
  C2. For a chat request whose text is not blank: if the search raises an error
  (whether the embedding of the query failed or the database query did), and the
  generation call answers, then the request ends with status 200 and a body carrying
  that answer, and the messages given to the generation call are the user message alone:
  no system message is among them.
\<close>

theorem chat_answers_without_context_when_retrieval_fails:
  assumes "trim (request_text req) \<noteq> []"
      and "searchDocumentsByQuery E (request_text req) 5 w = (Inl e, w1)"
      and "generateText E (length (trace w1)) [\<lparr>role = User, content = request_text req\<rparr>]
             (generation_options (chat_conversationId E req)) = Inr answer"
  shows "\<exists>msgs. chat_handler E req w =
           (Inr \<lparr>status = 200, body = ChatBody answer (chat_conversationId E req)\<rparr>,
            record_call (GenerateText msgs (generation_options (chat_conversationId E req))) w1) \<and>
         msgs = [\<lparr>role = User, content = request_text req\<rparr>] \<and>
         (\<forall>m \<in> set msgs. role m \<noteq> System)"
  using assms
  by (simp add: chat_handler_def Let_def retrieve_context_def prompt_messages_def
      agent_generateText_def)

lemma request_simps:
  "request_text hi_request = lit ''hi''"
  "chat_conversationId E hi_request = lit ''c1''"
  "request_text blank_request = lit '' \<newline> ''"
  "chat_conversationId E blank_request = lit ''c1''"
  by (simp_all add: hi_request_def blank_request_def request_text_def chat_conversationId_def)

lemma down_search:
  "searchDocumentsByQuery down_provider_env (lit ''hi'') 5 empty_world =
     (Inl (ProviderError 503), empty_world\<lparr>trace := [EmbeddingsCreate (lit ''hi'')]\<rparr>)"
  by (simp add: searchDocumentsByQuery_def Let_def trim_samples getEmbedding_def down_simps
      record_call_def empty_world_simps)

theorem chat_answers_without_context_when_retrieval_fails_witness:
  "chat_handler down_provider_env hi_request empty_world =
     (Inr \<lparr>status = 200, body = ChatBody (Some (lit ''ok'')) (lit ''c1'')\<rparr>,
      empty_world\<lparr>trace :=
        [EmbeddingsCreate (lit ''hi''),
         GenerateText [\<lparr>role = User, content = lit ''hi''\<rparr>] (generation_options (lit ''c1''))]\<rparr>)"
proof -
  have t: "trim (request_text hi_request) \<noteq> []"
    by (simp add: request_simps trim_samples)
  have s: "searchDocumentsByQuery down_provider_env (request_text hi_request) 5 empty_world =
     (Inl (ProviderError 503), empty_world\<lparr>trace := [EmbeddingsCreate (lit ''hi'')]\<rparr>)"
    by (simp add: request_simps down_search)
  have g: "generateText down_provider_env
             (length (trace (empty_world\<lparr>trace := [EmbeddingsCreate (lit ''hi'')]\<rparr>)))
             [\<lparr>role = User, content = request_text hi_request\<rparr>]
             (generation_options (chat_conversationId down_provider_env hi_request))
           = Inr (Some (lit ''ok''))"
    by (simp add: down_simps)
  from chat_answers_without_context_when_retrieval_fails[OF t s g]
  show ?thesis by (simp add: request_simps record_call_def)
qed

text \<open>
  C7. A chat request whose text is blank gets status 400 and the world is left as it
  was, so that no generation call (and no other call) is made. For a request whose text
  is not blank the handler performs the retrieval, which starts with the embedding
  request for the trimmed text, then makes the generation call, and answers with status
  200 and \<open>{text, conversationId}\<close> as soon as the generation call returns.
\<close>

theorem chat_rejects_blank_and_answers_otherwise:
  "(trim (request_text req) = [] \<longrightarrow>
      chat_handler E req w =
        (Inr \<lparr>status = 400, body = ErrorBody (lit ''text is required'')\<rparr>, w)) \<and>
   (trim (request_text req) \<noteq> [] \<longrightarrow>
      (\<exists>ctx w1 mid.
         retrieve_context E (request_text req) w = (ctx, w1) \<and>
         trace w1 = trace w @ EmbeddingsCreate (trim (request_text req)) # mid \<and>
         length mid \<le> 1 \<and> list_all is_select mid \<and>
         trace (snd (chat_handler E req w)) =
           trace w1 @ [GenerateText (prompt_messages ctx (request_text req))
                         (generation_options (chat_conversationId E req))] \<and>
         (\<forall>answer.
            generateText E (length (trace w1)) (prompt_messages ctx (request_text req))
              (generation_options (chat_conversationId E req)) = Inr answer \<longrightarrow>
            fst (chat_handler E req w) =
              Inr \<lparr>status = 200, body = ChatBody answer (chat_conversationId E req)\<rparr>)))"
proof (intro conjI impI)
  assume "trim (request_text req) = []"
  then show "chat_handler E req w =
        (Inr \<lparr>status = 400, body = ErrorBody (lit ''text is required'')\<rparr>, w)"
    by (simp add: chat_handler_def Let_def)
next
  assume ne: "trim (request_text req) \<noteq> []"
  obtain ctx w1 where r: "retrieve_context E (request_text req) w = (ctx, w1)"
    by (cases "retrieve_context E (request_text req) w")
  from retrieve_trace[OF ne r] obtain mid where
    mid: "trace w1 = trace w @ EmbeddingsCreate (trim (request_text req)) # mid"
         "length mid \<le> 1" "list_all is_select mid"
    by blast
  have "trace (snd (chat_handler E req w)) =
           trace w1 @ [GenerateText (prompt_messages ctx (request_text req))
                         (generation_options (chat_conversationId E req))]"
    using ne r
    by (simp add: chat_handler_def Let_def agent_generateText_def record_call_def
        split: sum.splits)
  moreover have "\<forall>answer.
            generateText E (length (trace w1)) (prompt_messages ctx (request_text req))
              (generation_options (chat_conversationId E req)) = Inr answer \<longrightarrow>
            fst (chat_handler E req w) =
              Inr \<lparr>status = 200, body = ChatBody answer (chat_conversationId E req)\<rparr>"
    using ne r
    by (simp add: chat_handler_def Let_def agent_generateText_def)
  ultimately show "\<exists>ctx w1 mid.
         retrieve_context E (request_text req) w = (ctx, w1) \<and>
         trace w1 = trace w @ EmbeddingsCreate (trim (request_text req)) # mid \<and>
         length mid \<le> 1 \<and> list_all is_select mid \<and>
         trace (snd (chat_handler E req w)) =
           trace w1 @ [GenerateText (prompt_messages ctx (request_text req))
                         (generation_options (chat_conversationId E req))] \<and>
         (\<forall>answer.
            generateText E (length (trace w1)) (prompt_messages ctx (request_text req))
              (generation_options (chat_conversationId E req)) = Inr answer \<longrightarrow>
            fst (chat_handler E req w) =
              Inr \<lparr>status = 200, body = ChatBody answer (chat_conversationId E req)\<rparr>)"
    using r mid by blast
qed

lemma example_search:
  "searchDocumentsByQuery example_env (lit ''hi'') 5 empty_world =
     (Inl (PgError (UndefinedColumn ''document_id'')),
      empty_world\<lparr>trace := [EmbeddingsCreate (lit ''hi''),
                            PoolQuery SelectSimilar [SVector example_vector, SInt 5]]\<rparr>)"
  by (simp add: searchDocumentsByQuery_def Let_def trim_samples getEmbedding_def example_simps
      example_vector_not_Nil pool_query_def parse_check_select record_call_def
      empty_world_simps)

lemma example_chat:
  "chat_handler example_env hi_request empty_world =
     (Inr \<lparr>status = 200, body = ChatBody (Some (lit ''ok'')) (lit ''c1'')\<rparr>,
      empty_world\<lparr>trace :=
        [EmbeddingsCreate (lit ''hi''),
         PoolQuery SelectSimilar [SVector example_vector, SInt 5],
         GenerateText [\<lparr>role = User, content = lit ''hi''\<rparr>] (generation_options (lit ''c1''))]\<rparr>)"
  by (simp add: chat_handler_def Let_def request_simps trim_samples retrieve_context_def
      example_search prompt_messages_def agent_generateText_def example_simps record_call_def)

theorem chat_rejects_blank_and_answers_otherwise_witness:
  "chat_handler example_env blank_request empty_world =
     (Inr \<lparr>status = 400, body = ErrorBody (lit ''text is required'')\<rparr>, empty_world) \<and>
   fst (chat_handler example_env hi_request empty_world) =
     Inr \<lparr>status = 200, body = ChatBody (Some (lit ''ok'')) (lit ''c1'')\<rparr> \<and>
   trace (snd (chat_handler example_env hi_request empty_world)) =
     [EmbeddingsCreate (lit ''hi''),
      PoolQuery SelectSimilar [SVector example_vector, SInt 5],
      GenerateText [\<lparr>role = User, content = lit ''hi''\<rparr>] (generation_options (lit ''c1''))]"
  using chat_rejects_blank_and_answers_otherwise[of blank_request example_env empty_world]
    chat_rejects_blank_and_answers_otherwise[of hi_request example_env empty_world]
  by (simp add: request_simps trim_samples example_chat)


section \<open>The multimodal chat handler\<close>

lemma trim_defaults:
  "trim (lit ''Summarize the uploaded document.'') = lit ''Summarize the uploaded document.''"
  "trim (lit ''Explain the uploaded content.'') = lit ''Explain the uploaded content.''"
  by (simp_all add: lit_def trim_def isWhiteSpace_def)

lemma effectiveQuestion_trimmed:
  "trim (effectiveQuestion req) = effectiveQuestion req \<and> effectiveQuestion req \<noteq> []"
  by (simp add: effectiveQuestion_def trim_defaults)

lemma mm_chat_status:
  "mm_chat_handler E req w = (Inr resp, w') \<Longrightarrow> status resp = 200"
  by (auto simp: mm_chat_handler_def split: prod.splits sum.splits)

text \<open>
  C10. The handler of \<open>/api/mm-chat\<close> has no client-error answer: every response it
  gives has status 200. When the question is missing, empty or only whitespace, the
  question is \<open>Summarize the uploaded document.\<close> if the uploaded file has a text that
  is not empty, and \<open>Explain the uploaded content.\<close> otherwise; once the ingestion part
  is over, that question is what the retrieval embeds and what the user message of the
  generation call contains.
\<close>

theorem mm_chat_defaults_the_question:
  "(\<forall>resp. fst (mm_chat_handler E req w) = Inr resp \<longrightarrow> status resp = 200) \<and>
   (trim (mm_question req) = [] \<longrightarrow>
      effectiveQuestion req =
        (if mm_uploadedText req \<noteq> [] then lit ''Summarize the uploaded document.''
         else lit ''Explain the uploaded content.'') \<and>
      (\<forall>w0. mm_ingest E req w = (Inr (), w0) \<longrightarrow>
         (\<exists>mid msgs.
            trace (snd (mm_chat_handler E req w)) =
              trace w0 @ EmbeddingsCreate (effectiveQuestion req) # mid @
                [GenerateText msgs (generation_options (mm_conversationId E req))] \<and>
            length mid \<le> 1 \<and> list_all is_select mid \<and>
            last msgs = \<lparr>role = User, content = effectiveQuestion req\<rparr>)))"
proof (intro conjI impI allI)
  fix resp
  assume "fst (mm_chat_handler E req w) = Inr resp"
  then show "status resp = 200"
    using mm_chat_status[of E req w resp "snd (mm_chat_handler E req w)"]
    by (metis prod.collapse)
next
  assume "trim (mm_question req) = []"
  then show "effectiveQuestion req =
        (if mm_uploadedText req \<noteq> [] then lit ''Summarize the uploaded document.''
         else lit ''Explain the uploaded content.'')"
    by (simp add: effectiveQuestion_def)
next
  fix w0
  assume ing: "mm_ingest E req w = (Inr (), w0)"
  obtain ctx w1 where r: "retrieve_context E (effectiveQuestion req) w0 = (ctx, w1)"
    by (cases "retrieve_context E (effectiveQuestion req) w0")
  have ne: "trim (effectiveQuestion req) \<noteq> []"
    using effectiveQuestion_trimmed[of req] by simp
  from retrieve_trace[OF ne r] obtain mid where
    mid: "trace w1 = trace w0 @ EmbeddingsCreate (effectiveQuestion req) # mid"
         "length mid \<le> 1" "list_all is_select mid"
    using effectiveQuestion_trimmed[of req] by auto
  have "trace (snd (mm_chat_handler E req w)) =
          trace w1 @ [GenerateText (prompt_messages ctx (effectiveQuestion req))
                        (generation_options (mm_conversationId E req))]"
    using ing r
    by (simp add: mm_chat_handler_def agent_generateText_def Let_def record_call_def
        split: sum.splits)
  moreover have "last (prompt_messages ctx (effectiveQuestion req)) =
      \<lparr>role = User, content = effectiveQuestion req\<rparr>"
    by (simp add: prompt_messages_def)
  ultimately show "\<exists>mid msgs.
            trace (snd (mm_chat_handler E req w)) =
              trace w0 @ EmbeddingsCreate (effectiveQuestion req) # mid @
                [GenerateText msgs (generation_options (mm_conversationId E req))] \<and>
            length mid \<le> 1 \<and> list_all is_select mid \<and>
            last msgs = \<lparr>role = User, content = effectiveQuestion req\<rparr>"
    using mid
    by (intro exI[of _ mid] exI[of _ "prompt_messages ctx (effectiveQuestion req)"]) simp
qed

lemma mm_request_simps:
  "mm_question bare_mm_request = []" "mm_uploadedText bare_mm_request = []"
  "mm_conversationId E bare_mm_request = lit ''c1''"
  "mm_question file_mm_request = lit '' \<newline> ''"
  "mm_uploadedText file_mm_request = lit ''abcdef''"
  "mm_conversationId E file_mm_request = lit ''c1''"
  by (simp_all add: bare_mm_request_def file_mm_request_def mm_question_def mm_uploadedText_def
      mm_conversationId_def)

lemma bare_mm_ingest: "mm_ingest example_env bare_mm_request empty_world = (Inr (), empty_world)"
  by (simp add: mm_ingest_def mm_request_simps trim_samples)

lemma bare_effective: "effectiveQuestion bare_mm_request = lit ''Explain the uploaded content.''"
  by (simp add: effectiveQuestion_def mm_request_simps trim_samples)

lemma file_effective: "effectiveQuestion file_mm_request = lit ''Summarize the uploaded document.''"
  by (simp add: effectiveQuestion_def mm_request_simps trim_samples)

lemma bare_mm_search:
  "searchDocumentsByQuery example_env (lit ''Explain the uploaded content.'') 5 empty_world =
     (Inl (PgError (UndefinedColumn ''document_id'')),
      empty_world\<lparr>trace := [EmbeddingsCreate (lit ''Explain the uploaded content.''),
                            PoolQuery SelectSimilar [SVector example_vector, SInt 5]]\<rparr>)"
  by (simp add: searchDocumentsByQuery_def Let_def trim_defaults getEmbedding_def example_simps
      example_vector_not_Nil pool_query_def parse_check_select record_call_def
      empty_world_simps)

lemma bare_mm_chat:
  "mm_chat_handler example_env bare_mm_request empty_world =
     (Inr \<lparr>status = 200, body = AnswerBody (lit ''ok'') (lit ''c1'')\<rparr>,
      empty_world\<lparr>trace :=
        [EmbeddingsCreate (lit ''Explain the uploaded content.''),
         PoolQuery SelectSimilar [SVector example_vector, SInt 5],
         GenerateText [\<lparr>role = User, content = lit ''Explain the uploaded content.''\<rparr>]
           (generation_options (lit ''c1''))]\<rparr>)"
  by (simp add: mm_chat_handler_def bare_mm_ingest bare_effective retrieve_context_def
      bare_mm_search prompt_messages_def agent_generateText_def Let_def example_simps
      record_call_def mm_request_simps)

theorem mm_chat_defaults_the_question_witness:
  "trim (mm_question bare_mm_request) = [] \<and>
   effectiveQuestion bare_mm_request = lit ''Explain the uploaded content.'' \<and>
   trim (mm_question file_mm_request) = [] \<and>
   effectiveQuestion file_mm_request = lit ''Summarize the uploaded document.'' \<and>
   fst (mm_chat_handler example_env bare_mm_request empty_world) =
     Inr \<lparr>status = 200, body = AnswerBody (lit ''ok'') (lit ''c1'')\<rparr> \<and>
   (\<exists>mid msgs.
      trace (snd (mm_chat_handler example_env bare_mm_request empty_world)) =
        trace empty_world @ EmbeddingsCreate (lit ''Explain the uploaded content.'') # mid @
          [GenerateText msgs (generation_options (lit ''c1''))] \<and>
      length mid \<le> 1 \<and> list_all is_select mid \<and>
      last msgs = \<lparr>role = User, content = lit ''Explain the uploaded content.''\<rparr>)"
  using mm_chat_defaults_the_question[of example_env bare_mm_request empty_world]
    mm_chat_defaults_the_question[of example_env file_mm_request empty_world]
  by (simp add: mm_request_simps trim_samples bare_mm_ingest bare_mm_chat bare_effective
      file_effective)


section \<open>The user on whose behalf the endpoints act\<close>

lemma scoped_refl [simp]: "scoped_step w w"
  by (simp add: scoped_step_def)

lemma scoped_trans: "scoped_step w w1 \<Longrightarrow> scoped_step w1 w2 \<Longrightarrow> scoped_step w w2"
  unfolding scoped_step_def by fastforce

lemma scoped_record:
  "call_user c = None \<or> call_user c = Some USER_ID \<Longrightarrow> scoped_step w (record_call c w)"
  unfolding scoped_step_def record_call_def by auto

lemma scoped_trace_eq: "trace w' = trace w \<Longrightarrow> scoped_step w w'"
  by (simp add: scoped_step_def)

lemma getEmbedding_scoped: "getEmbedding E t w = (r, w1) \<Longrightarrow> scoped_step w w1"
  by (auto simp: getEmbedding_def Let_def scoped_record
      split: if_splits sum.splits option.splits)

lemma pool_query_scoped: "pool_query E st ps w = (r, w1) \<Longrightarrow> scoped_step w w1"
  by (auto simp: pool_query_def Let_def scoped_step_def record_call_def run_insert_def
      run_select_def
      split: if_splits sum.splits option.splits statement.splits prod.splits list.splits
        sqlval.splits)

lemma ingest_chunk_scoped: "ingest_chunk E c i w = (r, w1) \<Longrightarrow> scoped_step w w1"
  by (auto simp: ingest_chunk_def split: prod.splits sum.splits
      dest!: getEmbedding_scoped pool_query_scoped intro: scoped_trans)

lemma ingest_loop_scoped: "ingest_loop E cs i w = (r, w1) \<Longrightarrow> scoped_step w w1"
proof (induction cs arbitrary: i w)
  case Nil
  then show ?case by simp
next
  case (Cons c cs)
  then show ?case
    by (auto split: prod.splits sum.splits dest!: ingest_chunk_scoped intro: scoped_trans)
qed

lemma ingestDocumentText_scoped: "ingestDocumentText E t w = (r, w1) \<Longrightarrow> scoped_step w w1"
  by (auto simp: ingestDocumentText_def Let_def split: if_splits dest: ingest_loop_scoped)

lemma search_scoped: "searchDocumentsByQuery E q n w = (r, w1) \<Longrightarrow> scoped_step w w1"
  by (auto simp: searchDocumentsByQuery_def Let_def split: if_splits prod.splits sum.splits
      dest!: getEmbedding_scoped pool_query_scoped intro: scoped_trans)

lemma retrieve_scoped: "retrieve_context E q w = (r, w1) \<Longrightarrow> scoped_step w w1"
  by (auto simp: retrieve_context_def split: prod.splits sum.splits dest!: search_scoped)

lemma generate_scoped:
  "agent_generateText E msgs (generation_options cid) w = (r, w1) \<Longrightarrow> scoped_step w w1"
  by (auto simp: agent_generateText_def Let_def generation_options_def scoped_record
      split: sum.splits)

lemma addMessage_scoped: "memory_addMessage E m USER_ID cid w = (r, w1) \<Longrightarrow> scoped_step w w1"
  by (auto simp: memory_addMessage_def Let_def scoped_record split: option.splits)

lemma conversations_scoped: "conversations_handler E w = (r, w1) \<Longrightarrow> scoped_step w w1"
  by (auto simp: conversations_handler_def memory_getConversationsByUserId_def Let_def
      scoped_record split: sum.splits)

lemma history_scoped: "history_handler E q w = (r, w1) \<Longrightarrow> scoped_step w w1"
  by (auto simp: history_handler_def memory_getMessages_def Let_def
      scoped_record split: sum.splits option.splits if_splits)

lemma ingest_handler_scoped: "ingest_handler E req w = (r, w1) \<Longrightarrow> scoped_step w w1"
  by (auto simp: ingest_handler_def Let_def
      split: sum.splits option.splits if_splits prod.splits
      dest!: ingestDocumentText_scoped addMessage_scoped intro: scoped_trans)

lemma chat_handler_scoped: "chat_handler E req w = (r, w1) \<Longrightarrow> scoped_step w w1"
  by (auto simp: chat_handler_def Let_def
      split: sum.splits option.splits if_splits prod.splits
      dest!: retrieve_scoped generate_scoped intro: scoped_trans)

lemma mm_ingest_scoped: "mm_ingest E req w = (r, w1) \<Longrightarrow> scoped_step w w1"
  by (auto simp: mm_ingest_def Let_def
      split: sum.splits option.splits if_splits prod.splits
      dest!: ingestDocumentText_scoped addMessage_scoped intro: scoped_trans)

lemma mm_chat_handler_scoped: "mm_chat_handler E req w = (r, w1) \<Longrightarrow> scoped_step w w1"
  by (auto simp: mm_chat_handler_def Let_def
      split: sum.splits option.splits if_splits prod.splits
      dest!: mm_ingest_scoped retrieve_scoped generate_scoped intro: scoped_trans)

lemma handle_scoped: "handle E req w = (r, w1) \<Longrightarrow> scoped_step w w1"
  by (cases req)
    (auto dest: conversations_scoped history_scoped ingest_handler_scoped chat_handler_scoped
      mm_chat_handler_scoped)

lemma history_response:
  assumes "history_handler E q w = (Inr resp, w1)"
  shows "resp = \<lparr>status = 400, body = ErrorBody (lit ''conversationId is required'')\<rparr> \<or>
         (\<exists>cid ms. q = Some cid \<and> resp = \<lparr>status = 200, body = HistoryBody USER_ID cid ms\<rparr>)"
  using assms
  by (auto simp: history_handler_def split: option.splits if_splits prod.splits sum.splits)

text \<open>
  C9. For each of the five routes, every call that the handler makes to the agent
  runtime (listing conversations, reading messages, writing a message, generating) is
  made for the user \<open>mohammed-alith\<close>, and a response of \<open>/api/history\<close> is either the
  400 answer for a missing \<open>conversationId\<close> or reports that user.
\<close>

theorem every_endpoint_acts_for_the_fixed_user:
  assumes "handle E req w = (res, w')"
  shows "(\<exists>cs. trace w' = trace w @ cs \<and>
            (\<forall>c \<in> set cs. \<forall>u. call_user c = Some u \<longrightarrow> u = lit ''mohammed-alith'')) \<and>
         (\<forall>q resp. req = GetHistory q \<and> res = Inr resp \<longrightarrow>
            resp = \<lparr>status = 400, body = ErrorBody (lit ''conversationId is required'')\<rparr> \<or>
            (\<exists>cid ms. q = Some cid \<and>
               resp = \<lparr>status = 200, body = HistoryBody (lit ''mohammed-alith'') cid ms\<rparr>))"
proof -
  have "scoped_step w w'" using handle_scoped[OF assms] .
  moreover have "\<forall>q resp. req = GetHistory q \<and> res = Inr resp \<longrightarrow>
            resp = \<lparr>status = 400, body = ErrorBody (lit ''conversationId is required'')\<rparr> \<or>
            (\<exists>cid ms. q = Some cid \<and> resp = \<lparr>status = 200, body = HistoryBody USER_ID cid ms\<rparr>)"
  proof (intro allI impI)
    fix q resp
    assume "req = GetHistory q \<and> res = Inr resp"
    with assms have "history_handler E q w = (Inr resp, w')" by simp
    then show "resp = \<lparr>status = 400, body = ErrorBody (lit ''conversationId is required'')\<rparr> \<or>
            (\<exists>cid ms. q = Some cid \<and> resp = \<lparr>status = 200, body = HistoryBody USER_ID cid ms\<rparr>)"
      by (rule history_response)
  qed
  ultimately show ?thesis by (simp add: scoped_step_def USER_ID_def)
qed

theorem every_endpoint_acts_for_the_fixed_user_witness:
  "handle example_env history_request empty_world =
     (Inr \<lparr>status = 200, body = HistoryBody (lit ''mohammed-alith'') (lit ''c1'') []\<rparr>,
      empty_world\<lparr>trace := [GetMessages (lit ''mohammed-alith'') (lit ''c1'') 50]\<rparr>) \<and>
   (\<exists>cs. trace (empty_world\<lparr>trace := [GetMessages (lit ''mohammed-alith'') (lit ''c1'') 50]\<rparr>) =
           trace empty_world @ cs \<and>
         (\<forall>c \<in> set cs. \<forall>u. call_user c = Some u \<longrightarrow> u = lit ''mohammed-alith''))"
proof -
  have h: "handle example_env history_request empty_world =
     (Inr \<lparr>status = 200, body = HistoryBody (lit ''mohammed-alith'') (lit ''c1'') []\<rparr>,
      empty_world\<lparr>trace := [GetMessages (lit ''mohammed-alith'') (lit ''c1'') 50]\<rparr>)"
    by (simp add: history_request_def history_handler_def memory_getMessages_def Let_def
        example_simps record_call_def empty_world_simps USER_ID_def)
  from every_endpoint_acts_for_the_fixed_user[OF h] h show ?thesis by simp
qed

end
